theory Spec2Isabelle
  imports Main "HOL-Library.AList"
begin

section \<open>Python values, exceptions and strings\<close>

text \<open>
  The importer (\<^verbatim>\<open>flatpak-import.py\<close>) is a Python script. Every exception it can raise is a
  constructor of \<open>error\<close>; a function that may raise returns \<open>error + 'a\<close> with \<open>Inl\<close> for the
  exception. \<open>KeyError\<close> carries the key that was looked up, as Python's does.
\<close>

datatype error =
    KeyError string
  | ValueError
  | TypeError
  | AttributeError
  | IndexError
  | OverflowError
  | FileNotFoundError
  | FileExistsError
  | IsADirectoryError
  | NotADirectoryError
  | JSONDecodeError
  | BinasciiError
  | CalledProcessError
  | GLibError

text \<open>What \<^verbatim>\<open>json.load\<close> returns: numbers are restricted to integers.\<close>

datatype json =
    JNull
  | JBool bool
  | JNum int
  | JStr string
  | JArr "json list"
  | JObj "(string \<times> json) list"

text \<open>\<^verbatim>\<open>s.split(c)\<close> for a one-character separator: always at least one piece.\<close>

fun split_on :: "char \<Rightarrow> string \<Rightarrow> string list" where
  "split_on c [] = [[]]"
| "split_on c (x # xs) =
     (if x = c then [] # split_on c xs
      else (case split_on c xs of [] \<Rightarrow> [[x]] | w # ws \<Rightarrow> (x # w) # ws))"

text \<open>\<^verbatim>\<open>s.split(c, 1)\<close>: one piece when \<open>c\<close> does not occur, two otherwise.\<close>

definition split1 :: "char \<Rightarrow> string \<Rightarrow> string list" where
  "split1 c s =
     (if c \<in> set s then [takeWhile (\<lambda>x. x \<noteq> c) s, tl (dropWhile (\<lambda>x. x \<noteq> c) s)] else [s])"

text \<open>The tuple assignment \<^verbatim>\<open>a, b = xs\<close> raises \<open>ValueError\<close> unless \<open>xs\<close> has two elements.\<close>

fun unpack2 :: "'a list \<Rightarrow> error + ('a \<times> 'a)" where
  "unpack2 [a, b] = Inr (a, b)"
| "unpack2 _ = Inl ValueError"

definition startswith :: "string \<Rightarrow> string \<Rightarrow> bool" where
  "startswith s p = (take (length p) s = p)"

text \<open>\<^verbatim>\<open>v[k]\<close> with a string key, \<^verbatim>\<open>v.get(k)\<close>, \<^verbatim>\<open>v.items()\<close>, \<^verbatim>\<open>v[-1]\<close>, \<^verbatim>\<open>for x in v\<close> and
  \<^verbatim>\<open>v.split(":", 1)\<close> on a value loaded from JSON.\<close>

fun getitem :: "json \<Rightarrow> string \<Rightarrow> error + json" where
  "getitem (JObj kvs) k = (case map_of kvs k of None \<Rightarrow> Inl (KeyError k) | Some v \<Rightarrow> Inr v)"
| "getitem _ k = Inl TypeError"

fun dict_get :: "json \<Rightarrow> string \<Rightarrow> error + json" where
  "dict_get (JObj kvs) k = (case map_of kvs k of None \<Rightarrow> Inr JNull | Some v \<Rightarrow> Inr v)"
| "dict_get _ k = Inl AttributeError"

fun dict_items :: "json \<Rightarrow> error + (string \<times> json) list" where
  "dict_items (JObj kvs) = Inr kvs"
| "dict_items _ = Inl AttributeError"

fun last_item :: "json \<Rightarrow> error + json" where
  "last_item (JArr xs) = (if xs = [] then Inl IndexError else Inr (last xs))"
| "last_item (JStr s) = (if s = [] then Inl IndexError else Inr (JStr [last s]))"
| "last_item (JObj kvs) = Inl (KeyError ''-1'')"
| "last_item _ = Inl TypeError"

fun py_iter :: "json \<Rightarrow> error + json list" where
  "py_iter (JArr xs) = Inr xs"
| "py_iter (JObj kvs) = Inr (map (\<lambda>kv. JStr (fst kv)) kvs)"
| "py_iter (JStr s) = Inr (map (\<lambda>c. JStr [c]) s)"
| "py_iter _ = Inl TypeError"

fun str_split1 :: "json \<Rightarrow> error + string list" where
  "str_split1 (JStr s) = Inr (split1 CHR '':'' s)"
| "str_split1 _ = Inl AttributeError"

text \<open>\<^verbatim>\<open>int(v)\<close>: a string is stripped of blanks, may carry a sign, and its digits may be
  grouped by single underscores.\<close>

definition is_digit :: "char \<Rightarrow> bool" where
  "is_digit c = (c \<in> set ''0123456789'')"

definition digit_val :: "char \<Rightarrow> int" where
  "digit_val c = int (of_char c) - 48"

definition is_space :: "char \<Rightarrow> bool" where
  "is_space c = (c \<in> {CHR '' '', CHR 0x09, CHR 0x0A, CHR 0x0B, CHR 0x0C, CHR 0x0D})"

definition strip :: "string \<Rightarrow> string" where
  "strip s = rev (dropWhile is_space (rev (dropWhile is_space s)))"

fun digits_ok :: "string \<Rightarrow> bool" where
  "digits_ok [] = False"
| "digits_ok [c] = is_digit c"
| "digits_ok (c # d # cs) =
     (is_digit c \<and> (if d = CHR ''_'' then cs \<noteq> [] \<and> digits_ok cs else digits_ok (d # cs)))"

definition digits_val :: "string \<Rightarrow> int" where
  "digits_val s = foldl (\<lambda>a c. 10 * a + digit_val c) 0 (filter is_digit s)"

definition int_of_str :: "string \<Rightarrow> error + int" where
  "int_of_str s =
     (let t = strip s;
          neg = (t \<noteq> [] \<and> hd t = CHR ''-'');
          u = (if t \<noteq> [] \<and> (hd t = CHR ''-'' \<or> hd t = CHR ''+'') then tl t else t)
      in if digits_ok u then Inr (if neg then - digits_val u else digits_val u)
         else Inl ValueError)"

fun py_int :: "json \<Rightarrow> error + int" where
  "py_int (JStr s) = int_of_str s"
| "py_int (JNum n) = Inr n"
| "py_int (JBool b) = Inr (if b then 1 else 0)"
| "py_int _ = Inl TypeError"


section \<open>The registry directory\<close>

text \<open>
  A path is the list of the components of an absolute path (the script passes every
  directory through \<^verbatim>\<open>os.path.abspath\<close>). \<open>joinpath\<close> is \<^verbatim>\<open>PurePosixPath.joinpath\<close> with one
  string segment: an absolute segment replaces the path, empty and \<^verbatim>\<open>.\<close> components are
  dropped. \<^verbatim>\<open>os.path.join\<close> is modelled by the same function.
\<close>

type_synonym path = "string list"

definition parts_of :: "string \<Rightarrow> string list" where
  "parts_of s = filter (\<lambda>c. c \<noteq> [] \<and> c \<noteq> ''.'') (split_on CHR ''/'' s)"

definition joinpath :: "path \<Rightarrow> string \<Rightarrow> path" where
  "joinpath p s = (if s \<noteq> [] \<and> hd s = CHR ''/'' then parts_of s else p @ parts_of s)"

text \<open>
  A file is modelled by what its bytes decode to: a JSON document (what \<^verbatim>\<open>json.load\<close>
  returns and \<^verbatim>\<open>json.dump\<close> writes), a layer archive (the entries \<^verbatim>\<open>tar -x\<close> extracts, path
  and content, in archive order), or anything else.
\<close>

datatype filedata =
    JsonFile json
  | TarFile "(string \<times> string) list"
  | OtherFile string

record fs =
  dirs :: "path set"
  files :: "path \<rightharpoonup> filedata"

definition exists :: "fs \<Rightarrow> path \<Rightarrow> bool" where
  "exists f p = (p \<in> dirs f \<or> files f p \<noteq> None)"

text \<open>\<^verbatim>\<open>open(p, "w")\<close> followed by a write of \<open>d\<close>: the parent directory must exist.\<close>

definition write_file :: "fs \<Rightarrow> path \<Rightarrow> filedata \<Rightarrow> error + fs" where
  "write_file f p d =
     (if p = [] \<or> p \<in> dirs f then Inl IsADirectoryError
      else if files f (butlast p) \<noteq> None then Inl NotADirectoryError
      else if butlast p \<notin> dirs f then Inl FileNotFoundError
      else Inr (f\<lparr>files := (files f)(p \<mapsto> d)\<rparr>))"

text \<open>\<^verbatim>\<open>Path.mkdir(parents=True, exist_ok=True)\<close>.\<close>

definition prefixes_of :: "path \<Rightarrow> path list" where
  "prefixes_of p = map (\<lambda>n. take n p) [0..<Suc (length p)]"

definition mkdir_p :: "fs \<Rightarrow> path \<Rightarrow> error + fs" where
  "mkdir_p f p =
     (if files f p \<noteq> None then Inl FileExistsError
      else if \<exists>q \<in> set (prefixes_of p). files f q \<noteq> None then Inl NotADirectoryError
      else Inr (f\<lparr>dirs := dirs f \<union> set (prefixes_of p)\<rparr>))"

text \<open>
  What the script hands to \<^verbatim>\<open>open\<close>, \<^verbatim>\<open>sha256sum\<close> and \<^verbatim>\<open>tar\<close> as a file name: Python is
  dynamically typed, and the script passes \<^verbatim>\<open>None\<close> (from \<^verbatim>\<open>path_for_blob\<close>) and the
  pair returned by \<^verbatim>\<open>tempfile.mkstemp\<close> where a path is expected.
\<close>

datatype filearg =
    ArgNone
  | ArgPath path
  | ArgFdName int path

text \<open>\<^verbatim>\<open>open(a, "r")\<close> and reading the whole file.\<close>

fun read_file :: "fs \<Rightarrow> filearg \<Rightarrow> error + filedata" where
  "read_file f (ArgPath p) =
     (if p \<in> dirs f then Inl IsADirectoryError
      else (case files f p of None \<Rightarrow> Inl FileNotFoundError | Some d \<Rightarrow> Inr d))"
| "read_file f _ = Inl TypeError"

text \<open>\<^verbatim>\<open>open(a, "w")\<close> and \<^verbatim>\<open>json.dump\<close>.\<close>

fun open_w :: "fs \<Rightarrow> filearg \<Rightarrow> filedata \<Rightarrow> error + fs" where
  "open_w f (ArgPath p) d = write_file f p d"
| "open_w f _ d = Inl TypeError"

fun json_load :: "filedata \<Rightarrow> error + json" where
  "json_load (JsonFile v) = Inr v"
| "json_load _ = Inl JSONDecodeError"

subsection \<open>class Registry\<close>

record registry =
  root :: path
  blobs :: "(string \<times> path) list"

definition MEDIA_TYPES :: "(string \<times> string) list" where
  "MEDIA_TYPES =
     [(''layer'', ''application/vnd.oci.image.layer.v1.tar''),
      (''manifest'', ''application/vnd.oci.image.manifest.v1+json''),
      (''config'', ''application/vnd.oci.image.config.v1+json'')]"

text \<open>\<^verbatim>\<open>Registry.init\<close>: writes the layout marker \<^verbatim>\<open>oci-layout\<close> under the root.\<close>

definition init :: "fs \<Rightarrow> path \<Rightarrow> error + fs" where
  "init f r =
     open_w f (ArgPath (joinpath r ''oci-layout''))
       (JsonFile (JObj [(''imageLayoutVersion'', JStr ''1.0.0'')]))"

text \<open>The loop \<^verbatim>\<open>for algorithm in ("sha256", )\<close> of the constructor.\<close>

fun make_blob_dirs :: "fs \<Rightarrow> path \<Rightarrow> string list \<Rightarrow> (string \<times> path) list
    \<Rightarrow> (error + (string \<times> path) list) \<times> fs" where
  "make_blob_dirs f b [] acc = (Inr acc, f)"
| "make_blob_dirs f b (a # as) acc =
     (case mkdir_p f (joinpath b a) of
        Inl e \<Rightarrow> (Inl e, f)
      | Inr f' \<Rightarrow> make_blob_dirs f' b as (AList.update a (joinpath b a) acc))"

text \<open>\<^verbatim>\<open>Registry.__init__\<close>: the result is the exception or the object, and the file system
  as the constructor leaves it.\<close>

definition Registry :: "fs \<Rightarrow> path \<Rightarrow> (error + registry) \<times> fs" where
  "Registry f r =
     (case (if \<not> exists f r then init f r else Inr f) of
        Inl e \<Rightarrow> (Inl e, f)
      | Inr f1 \<Rightarrow>
          (case make_blob_dirs f1 (joinpath r ''blobs'') [''sha256''] [] of
             (Inl e, f2) \<Rightarrow> (Inl e, f2)
           | (Inr bs, f2) \<Rightarrow> (Inr \<lparr>root = r, blobs = bs\<rparr>, f2)))"

text \<open>\<^verbatim>\<open>Registry.path_for_blob\<close>: \<^verbatim>\<open>None\<close> for an algorithm without a blob directory.\<close>

definition path_for_blob :: "registry \<Rightarrow> string \<Rightarrow> error + path option" where
  "path_for_blob reg digest =
     (case unpack2 (split1 CHR '':'' digest) of
        Inl e \<Rightarrow> Inl e
      | Inr (algorithm, want) \<Rightarrow>
          (case map_of (blobs reg) algorithm of
             None \<Rightarrow> Inr None
           | Some dir \<Rightarrow> Inr (Some (joinpath dir want))))"

definition arg_of :: "path option \<Rightarrow> filearg" where
  "arg_of p = (case p of None \<Rightarrow> ArgNone | Some q \<Rightarrow> ArgPath q)"

text \<open>\<^verbatim>\<open>Registry.blobs_get_json\<close>.\<close>

definition blobs_get_json :: "fs \<Rightarrow> registry \<Rightarrow> string \<Rightarrow> error + json" where
  "blobs_get_json f reg digest =
     (case path_for_blob reg digest of
        Inl e \<Rightarrow> Inl e
      | Inr p \<Rightarrow>
          (case read_file f (arg_of p) of
             Inl e \<Rightarrow> Inl e
           | Inr d \<Rightarrow> json_load d))"

text \<open>
  The operating system and the external programs, as far as the script depends on them:
  the digest \<^verbatim>\<open>sha256sum\<close> prints for a file, the size \<^verbatim>\<open>os.stat\<close> reports, and the name
  and descriptor \<^verbatim>\<open>tempfile.mkstemp\<close> picks.
\<close>

record os_env =
  sha256_of :: "filedata \<Rightarrow> string"
  size_of :: "filedata \<Rightarrow> nat"
  temp_suffix :: string
  temp_fd :: int

text \<open>\<^verbatim>\<open>sha256sum(path)\<close>: the subprocess needs a string argument and an existing file.\<close>

fun sha256sum :: "os_env \<Rightarrow> fs \<Rightarrow> filearg \<Rightarrow> error + string" where
  "sha256sum env f (ArgPath p) =
     (case files f p of None \<Rightarrow> Inl CalledProcessError | Some d \<Rightarrow> Inr (sha256_of env d))"
| "sha256sum env f _ = Inl TypeError"

record blob_info =
  b_digest :: string
  b_size :: nat
  b_mediaType :: string

text \<open>\<^verbatim>\<open>Registry.blobs_add_file\<close>: the file is renamed into the blob directory before the
  media type is looked up.\<close>

definition blobs_add_file :: "os_env \<Rightarrow> fs \<Rightarrow> registry \<Rightarrow> filearg \<Rightarrow> string \<Rightarrow> string
    \<Rightarrow> (error + blob_info) \<times> fs" where
  "blobs_add_file env f reg a mtype algorithm =
     (case map_of (blobs reg) algorithm of
        None \<Rightarrow> (Inl (KeyError algorithm), f)
      | Some bdir \<Rightarrow>
          (case sha256sum env f a of
             Inl e \<Rightarrow> (Inl e, f)
           | Inr dg \<Rightarrow>
               (case a of
                  ArgPath p \<Rightarrow>
                    (case files f p of
                       None \<Rightarrow> (Inl FileNotFoundError, f)
                     | Some d \<Rightarrow>
                         (let dst = joinpath bdir dg in
                          if dst \<in> dirs f then (Inl IsADirectoryError, f)
                          else if butlast dst \<notin> dirs f then (Inl FileNotFoundError, f)
                          else
                            (let f' = f\<lparr>files := ((files f)(p := None))(dst \<mapsto> d)\<rparr> in
                             case map_of MEDIA_TYPES mtype of
                               None \<Rightarrow> (Inl (KeyError mtype), f')
                             | Some mt \<Rightarrow>
                                 (Inr \<lparr>b_digest = algorithm @ '':'' @ dg, b_size = size_of env d,
                                       b_mediaType = mt\<rparr>, f'))))
                | _ \<Rightarrow> (Inl TypeError, f))))"

text \<open>\<^verbatim>\<open>tempfile.mkstemp(dir=d, prefix=p)\<close>: creates an empty file and returns the pair of
  its descriptor and its name.\<close>

definition mkstemp :: "os_env \<Rightarrow> fs \<Rightarrow> path \<Rightarrow> string \<Rightarrow> (error + filearg) \<times> fs" where
  "mkstemp env f d prefix =
     (let p = d @ [prefix @ temp_suffix env] in
      if d \<notin> dirs f then (Inl FileNotFoundError, f)
      else if exists f p then (Inl FileExistsError, f)
      else (Inr (ArgFdName (temp_fd env) p), f\<lparr>files := (files f)(p \<mapsto> OtherFile [])\<rparr>))"

text \<open>\<^verbatim>\<open>Registry.blobs_add_json\<close>: the value of \<^verbatim>\<open>mkstemp\<close> is passed on to \<^verbatim>\<open>open\<close> as it
  is.\<close>

definition blobs_add_json :: "os_env \<Rightarrow> fs \<Rightarrow> registry \<Rightarrow> json \<Rightarrow> string \<Rightarrow> string
    \<Rightarrow> (error + blob_info) \<times> fs" where
  "blobs_add_json env f reg js mtype algorithm =
     (case mkstemp env f (root reg) ''.temp-'' of
        (Inl e, f1) \<Rightarrow> (Inl e, f1)
      | (Inr js_file, f1) \<Rightarrow>
          (case open_w f1 js_file (JsonFile js) of
             Inl e \<Rightarrow> (Inl e, f1)
           | Inr f2 \<Rightarrow> blobs_add_file env f2 reg js_file mtype algorithm))"

section \<open>Sequencing calls that may raise\<close>

text \<open>\<open>x \<bind> f\<close> for exceptions: the first exception ends the sequence.\<close>

definition and_then :: "error + 'a \<Rightarrow> ('a \<Rightarrow> error + 'b) \<Rightarrow> error + 'b" where
  "and_then x f = (case x of Inl e \<Rightarrow> Inl e | Inr v \<Rightarrow> f v)"

section \<open>The OSTree repository\<close>

text \<open>
  The destination store is an OSTree repository, driven through its library. The script
  depends on it only through the calls below, so the store is a value: the refs and commit
  objects a reader sees, and the refs and objects staged by an open transaction.
  A commit's metadata is the \<^verbatim>\<open>a{sv}\<close> dictionary in the order the entries were added.
  \<open>VStr s\<close> is \<^verbatim>\<open>GLib.Variant("s", s)\<close>; \<open>VData b\<close> is the variant that
  \<^verbatim>\<open>GLib.Variant.new_from_bytes\<close> makes of the bytes \<open>b\<close> (type \<^verbatim>\<open>v\<close>), unwrapped.
\<close>

datatype variant = VStr string | VData string

type_synonym mtree = "(string \<times> string) list"

record commit =
  c_parent :: "string option"
  c_subject :: "string option"
  c_body :: "string option"
  c_metadata :: "(string \<times> variant) list"
  c_root :: mtree
  c_timestamp :: int

record repo =
  refs :: "(string \<times> string) list"
  objects :: "(string \<times> commit) list"
  txn :: "((string \<times> string) list \<times> (string \<times> commit) list) option"

text \<open>
  What lies outside the script: \<^verbatim>\<open>base64.b64decode\<close>, the checksum OSTree gives a commit,
  and which library calls fail (each raises \<^verbatim>\<open>GLib.Error\<close> and changes nothing).
\<close>

datatype repo_call =
    RepoCreate
  | PrepareTransaction
  | WriteDirectoryToMtree "(string \<times> string) list"
  | WriteMtree
  | WriteCommit
  | CommitTransaction

record lib_env =
  b64decode :: "string \<Rightarrow> error + string"
  checksum_of :: "commit \<Rightarrow> string"
  fails :: "repo_call \<Rightarrow> bool"

definition prepare_transaction :: "lib_env \<Rightarrow> repo \<Rightarrow> error + repo" where
  "prepare_transaction env r =
     (if fails env PrepareTransaction then Inl GLibError else Inr (r\<lparr>txn := Some ([], [])\<rparr>))"

definition abort_transaction :: "repo \<Rightarrow> repo" where
  "abort_transaction r = r\<lparr>txn := None\<rparr>"

text \<open>Modelled from the spec: \<^verbatim>\<open>OSTree.Repo.write_directory_to_mtree\<close> is a call into the
  OSTree library, whose code is not part of this repository. The model follows the merge
  policy of the TreeBuilder: an entry of the directory replaces the entry of the tree at the
  same path, whole.\<close>

definition overlay :: "mtree \<Rightarrow> (string \<times> string) list \<Rightarrow> mtree" where
  "overlay t es = fold (\<lambda>pe acc. AList.update (fst pe) (snd pe) acc) es t"

definition write_directory_to_mtree :: "lib_env \<Rightarrow> (string \<times> string) list \<Rightarrow> mtree
    \<Rightarrow> error + mtree" where
  "write_directory_to_mtree env es t =
     (if fails env (WriteDirectoryToMtree es) then Inl GLibError else Inr (overlay t es))"

text \<open>\<^verbatim>\<open>write_mtree\<close> returns the content identity of the tree: here the tree itself.\<close>

definition write_mtree :: "lib_env \<Rightarrow> mtree \<Rightarrow> error + mtree" where
  "write_mtree env t = (if fails env WriteMtree then Inl GLibError else Inr t)"

text \<open>Arguments taken from JSON are converted when the library is called: a string
  parameter refuses anything but a string, a nullable one also takes \<^verbatim>\<open>None\<close>, a
  \<^verbatim>\<open>guint64\<close> refuses an integer out of range.\<close>

fun as_str :: "json \<Rightarrow> error + string" where
  "as_str (JStr s) = Inr s"
| "as_str _ = Inl TypeError"

fun as_opt_str :: "json \<Rightarrow> error + string option" where
  "as_opt_str (JStr s) = Inr (Some s)"
| "as_opt_str JNull = Inr None"
| "as_opt_str _ = Inl TypeError"

definition stage_object :: "repo \<Rightarrow> string \<Rightarrow> commit \<Rightarrow> repo" where
  "stage_object r rv c =
     (case txn r of
        None \<Rightarrow> r\<lparr>objects := AList.update rv c (objects r)\<rparr>
      | Some (srefs, sobjs) \<Rightarrow> r\<lparr>txn := Some (srefs, AList.update rv c sobjs)\<rparr>)"

definition write_commit_with_time :: "lib_env \<Rightarrow> repo \<Rightarrow> json \<Rightarrow> json \<Rightarrow> json
    \<Rightarrow> (string \<times> variant) list \<Rightarrow> mtree \<Rightarrow> int \<Rightarrow> error + (string \<times> repo)" where
  "write_commit_with_time env r parent subject body metadata rt timestamp =
     and_then (as_opt_str parent) (\<lambda>p.
     and_then (as_opt_str subject) (\<lambda>s.
     and_then (as_opt_str body) (\<lambda>b.
       if timestamp < 0 \<or> 2 ^ 64 \<le> timestamp then Inl OverflowError
       else if fails env WriteCommit then Inl GLibError
       else
         (let c = \<lparr>c_parent = p, c_subject = s, c_body = b, c_metadata = metadata,
                   c_root = rt, c_timestamp = timestamp\<rparr>
          in Inr (checksum_of env c, stage_object r (checksum_of env c) c)))))"

definition transaction_set_ref :: "repo \<Rightarrow> json \<Rightarrow> string \<Rightarrow> error + repo" where
  "transaction_set_ref r ref rv =
     (case as_str ref of
        Inl e \<Rightarrow> Inl e
      | Inr name \<Rightarrow>
          (case txn r of
             None \<Rightarrow> Inr r
           | Some (srefs, sobjs) \<Rightarrow> Inr (r\<lparr>txn := Some (AList.update name rv srefs, sobjs)\<rparr>)))"

definition merge_into :: "('k \<times> 'v) list \<Rightarrow> ('k \<times> 'v) list \<Rightarrow> ('k \<times> 'v) list" where
  "merge_into staged old = fold (\<lambda>kv acc. AList.update (fst kv) (snd kv) acc) staged old"

definition commit_transaction :: "lib_env \<Rightarrow> repo \<Rightarrow> error + repo" where
  "commit_transaction env r =
     (if fails env CommitTransaction then Inl GLibError
      else
        (case txn r of
           None \<Rightarrow> Inl GLibError
         | Some (srefs, sobjs) \<Rightarrow>
             Inr (r\<lparr>refs := merge_into srefs (refs r),
                     objects := merge_into sobjs (objects r),
                     txn := None\<rparr>)))"

definition resolve_rev :: "repo \<Rightarrow> string \<Rightarrow> error + string" where
  "resolve_rev r ref = (case map_of (refs r) ref of None \<Rightarrow> Inl GLibError | Some rv \<Rightarrow> Inr rv)"

definition load_commit :: "repo \<Rightarrow> string \<Rightarrow> error + commit" where
  "load_commit r rv = (case map_of (objects r) rv of None \<Rightarrow> Inl GLibError | Some c \<Rightarrow> Inr c)"

text \<open>\<^verbatim>\<open>GLib.VariantDict.new(md).lookup_value(k, GLib.VariantType("s"))\<close>: the dictionary keeps
  the last entry of a key, and a value of another type is not found.\<close>

definition lookup_str :: "(string \<times> variant) list \<Rightarrow> string \<Rightarrow> string option" where
  "lookup_str md k = (case map_of (rev md) k of Some (VStr s) \<Rightarrow> Some s | _ \<Rightarrow> None)"

section \<open>The importer\<close>

datatype event =
    Importing string
  | FoundCommit string string
  | Committing string json
  | SummaryUpdate

text \<open>\<^verbatim>\<open>import_layer\<close>: \<^verbatim>\<open>tar -x\<close> into a fresh directory, then the directory is written
  into the mutable tree.\<close>

fun tar_x :: "fs \<Rightarrow> filearg \<Rightarrow> error + (string \<times> string) list" where
  "tar_x f (ArgPath p) = (case files f p of Some (TarFile es) \<Rightarrow> Inr es | _ \<Rightarrow> Inl CalledProcessError)"
| "tar_x f _ = Inl TypeError"

definition import_layer :: "lib_env \<Rightarrow> fs \<Rightarrow> mtree \<Rightarrow> filearg \<Rightarrow> error + mtree" where
  "import_layer env f t a =
     (case tar_x f a of
        Inl e \<Rightarrow> Inl e
      | Inr es \<Rightarrow> write_directory_to_mtree env es t)"

text \<open>The loop over the labels that fills the \<^verbatim>\<open>GLib.VariantBuilder\<close>.\<close>

definition metadata_prefix :: string where
  "metadata_prefix = ''org.flatpak.commit-metadata.''"

fun decode_label :: "lib_env \<Rightarrow> json \<Rightarrow> error + string" where
  "decode_label env (JStr s) = b64decode env s"
| "decode_label env _ = Inl TypeError"

fun label_entries :: "lib_env \<Rightarrow> (string \<times> json) list \<Rightarrow> error + (string \<times> variant) list" where
  "label_entries env [] = Inr []"
| "label_entries env ((k, v) # kvs) =
     (if \<not> startswith k metadata_prefix then label_entries env kvs
      else
        (case decode_label env v of
           Inl e \<Rightarrow> Inl e
         | Inr binary \<Rightarrow>
             (case label_entries env kvs of
                Inl e \<Rightarrow> Inl e
              | Inr rest \<Rightarrow> Inr ((drop (length metadata_prefix) k, VData binary) # rest))))"

text \<open>The hash portion: \<^verbatim>\<open>_, checksum = d.split(":", 1)\<close>.\<close>

definition hash_part :: "json \<Rightarrow> error + string" where
  "hash_part d = and_then (str_split1 d) (\<lambda>ps. and_then (unpack2 ps) (\<lambda>ac. Inr (snd ac)))"

text \<open>What \<^verbatim>\<open>import_image\<close> has read and built when it opens the transaction.\<close>

record image =
  i_manifest :: json
  i_ref :: json
  i_parent :: json
  i_timestamp :: int
  i_subject :: json
  i_body :: json
  i_metadata :: "(string \<times> variant) list"

text \<open>\<^verbatim>\<open>import_image\<close>, from its first line to \<^verbatim>\<open>metadata = builder.end()\<close>, in three
  steps: the manifest, the config and its labels are loaded; the required labels are
  read; the metadata is built. Nothing here touches the repository.\<close>

definition str_attr :: "json \<Rightarrow> error + string" where
  "str_attr v = (case v of JStr s \<Rightarrow> Inr s | _ \<Rightarrow> Inl AttributeError)"

definition load_labels :: "fs \<Rightarrow> registry \<Rightarrow> string \<Rightarrow> error + (json \<times> json \<times> json)" where
  "load_labels f reg dg =
     and_then (blobs_get_json f reg dg) (\<lambda>manifest.
     and_then (getitem manifest ''config'') (\<lambda>cfgdesc.
     and_then (getitem cfgdesc ''digest'') (\<lambda>cfgdigest.
     and_then (str_attr cfgdigest) (\<lambda>cd.
     and_then (blobs_get_json f reg cd) (\<lambda>config.
     and_then (getitem config ''config'') (\<lambda>cc.
     and_then (getitem cc ''Labels'') (\<lambda>labels.
       Inr (manifest, config, labels))))))))"

definition required_labels :: "json \<Rightarrow> error + (json \<times> json \<times> int \<times> json \<times> json)" where
  "required_labels labels =
     and_then (getitem labels ''org.flatpak.ref'') (\<lambda>ref.
     and_then (dict_get labels ''org.flatpak.parent-commit'') (\<lambda>parent.
     and_then (getitem labels ''org.flatpak.timestamp'') (\<lambda>ts.
     and_then (py_int ts) (\<lambda>timestamp.
     and_then (getitem labels ''org.flatpak.subject'') (\<lambda>subject.
     and_then (getitem labels ''org.flatpak.body'') (\<lambda>body.
       Inr (ref, parent, timestamp, subject, body)))))))"

definition build_metadata :: "lib_env \<Rightarrow> json \<Rightarrow> json \<Rightarrow> string
    \<Rightarrow> error + (string \<times> variant) list" where
  "build_metadata env config labels dg =
     and_then (dict_items labels) (\<lambda>items.
     and_then (label_entries env items) (\<lambda>entries.
     and_then (hash_part (JStr dg)) (\<lambda>checksum.
     and_then (getitem config ''rootfs'') (\<lambda>rootfs.
     and_then (getitem rootfs ''diff_ids'') (\<lambda>diff_ids.
     and_then (last_item diff_ids) (\<lambda>last_diff_id.
     and_then (hash_part last_diff_id) (\<lambda>diff_checksum.
       Inr (entries @ [(''xa.alt-id'', VStr checksum),
                       (''xa.diff-id'', VStr diff_checksum)]))))))))"

definition read_image :: "lib_env \<Rightarrow> fs \<Rightarrow> registry \<Rightarrow> string \<Rightarrow> error + image" where
  "read_image env f reg dg =
     and_then (load_labels f reg dg) (\<lambda>(manifest, config, labels).
     and_then (required_labels labels) (\<lambda>(ref, parent, timestamp, subject, body).
     and_then (build_metadata env config labels dg) (\<lambda>metadata.
       Inr \<lparr>i_manifest = manifest, i_ref = ref, i_parent = parent, i_timestamp = timestamp,
            i_subject = subject, i_body = body, i_metadata = metadata\<rparr>)))"

text \<open>The loop \<^verbatim>\<open>for layer in manifest["layers"]\<close>.\<close>

fun import_layers :: "lib_env \<Rightarrow> fs \<Rightarrow> registry \<Rightarrow> mtree \<Rightarrow> json list \<Rightarrow> error + mtree" where
  "import_layers env f reg t [] = Inr t"
| "import_layers env f reg t (layer # layers) =
     and_then (getitem layer ''digest'') (\<lambda>d.
     and_then (str_attr d) (\<lambda>dg.
     and_then (path_for_blob reg dg) (\<lambda>p.
     and_then (import_layer env f t (arg_of p)) (\<lambda>t'.
       import_layers env f reg t' layers))))"

text \<open>The body of the \<^verbatim>\<open>try\<close> statement: the result, the repository and the log where
  the body ends or raises.\<close>

definition build_tree :: "lib_env \<Rightarrow> fs \<Rightarrow> registry \<Rightarrow> image \<Rightarrow> error + mtree" where
  "build_tree env f reg im =
     and_then (getitem (i_manifest im) ''layers'') (\<lambda>ls.
     and_then (py_iter ls) (\<lambda>layers.
     and_then (import_layers env f reg [] layers) (\<lambda>t.
       write_mtree env t)))"

definition import_body :: "lib_env \<Rightarrow> fs \<Rightarrow> registry \<Rightarrow> image \<Rightarrow> repo \<Rightarrow> event list
    \<Rightarrow> (error + unit) \<times> repo \<times> event list" where
  "import_body env f reg im r log =
     (case build_tree env f reg im of
        Inl e \<Rightarrow> (Inl e, r, log)
      | Inr rt \<Rightarrow>
          (case write_commit_with_time env r (i_parent im) (i_subject im) (i_body im)
                  (i_metadata im) rt (i_timestamp im) of
             Inl e \<Rightarrow> (Inl e, r, log)
           | Inr (rv, r1) \<Rightarrow>
               (case transaction_set_ref r1 (i_ref im) rv of
                  Inl e \<Rightarrow> (Inl e, r1, log @ [Committing rv (i_ref im)])
                | Inr r2 \<Rightarrow>
                    (case commit_transaction env r2 of
                       Inl e \<Rightarrow> (Inl e, r2, log @ [Committing rv (i_ref im)])
                     | Inr r3 \<Rightarrow> (Inr (), r3, log @ [Committing rv (i_ref im)])))))"

text \<open>\<^verbatim>\<open>import_image\<close>: \<^verbatim>\<open>except: repo.abort_transaction(); raise\<close> around the body.\<close>

definition import_image :: "lib_env \<Rightarrow> fs \<Rightarrow> registry \<Rightarrow> repo \<Rightarrow> event list \<Rightarrow> string
    \<Rightarrow> (error + unit) \<times> repo \<times> event list" where
  "import_image env f reg r log dg =
     (case read_image env f reg dg of
        Inl e \<Rightarrow> (Inl e, r, log)
      | Inr im \<Rightarrow>
          (case prepare_transaction env r of
             Inl e \<Rightarrow> (Inl e, r, log)
           | Inr r0 \<Rightarrow>
               (case import_body env f reg im r0 log of
                  (Inl e, r1, log1) \<Rightarrow> (Inl e, abort_transaction r1, log1)
                | (Inr u, r1, log1) \<Rightarrow> (Inr u, r1, log1))))"

text \<open>\<^verbatim>\<open>iter_commits\<close>, over the names \<^verbatim>\<open>list_refs\<close> returns.\<close>

fun commits_of :: "repo \<Rightarrow> string list \<Rightarrow> error + (string \<times> string) list" where
  "commits_of r [] = Inr []"
| "commits_of r (ref # rs) =
     and_then (resolve_rev r ref) (\<lambda>commit_id.
     and_then (load_commit r commit_id) (\<lambda>c.
     and_then (commits_of r rs) (\<lambda>rest.
       (case lookup_str (c_metadata c) ''xa.alt-id'' of
          None \<Rightarrow> Inr rest
        | Some alt_id \<Rightarrow>
            if alt_id = [] then Inr rest else Inr ((''sha256:'' @ alt_id, commit_id) # rest)))))"

definition iter_commits :: "repo \<Rightarrow> error + (string \<times> string) list" where
  "iter_commits r = commits_of r (map fst (refs r))"

text \<open>\<^verbatim>\<open>dict(pairs).get(k)\<close>: a later pair replaces an earlier one with the same key.\<close>

definition dict_of_get :: "(string \<times> string) list \<Rightarrow> string \<Rightarrow> string option" where
  "dict_of_get pairs k = map_of (rev pairs) k"

text \<open>The loop of \<^verbatim>\<open>main\<close> over the non-empty lines; \<^verbatim>\<open>if commit:\<close> is false for \<^verbatim>\<open>None\<close>
  and for the empty string.\<close>

fun import_loop :: "lib_env \<Rightarrow> fs \<Rightarrow> registry \<Rightarrow> (string \<times> string) list \<Rightarrow> string list
    \<Rightarrow> repo \<Rightarrow> event list \<Rightarrow> (error + unit) \<times> repo \<times> event list" where
  "import_loop env f reg existing [] r log = (Inr (), r, log)"
| "import_loop env f reg existing (img # imgs) r log =
     (case dict_of_get existing img of
        Some (c # cs) \<Rightarrow> import_loop env f reg existing imgs r (log @ [FoundCommit (c # cs) img])
      | _ \<Rightarrow>
          (case import_image env f reg r (log @ [Importing img]) img of
             (Inl e, r1, log1) \<Rightarrow> (Inl e, r1, log1)
           | (Inr u, r1, log1) \<Rightarrow> import_loop env f reg existing imgs r1 log1))"

record world =
  w_fs :: fs
  w_repo :: repo
  w_log :: "event list"

text \<open>\<^verbatim>\<open>main\<close>, from the text of the image list on: the registry directory, the world
  before and the world after, with the exception that ended the run if one did. The last
  line runs \<^verbatim>\<open>ostree summary -u\<close> without \<^verbatim>\<open>check=True\<close>.\<close>

definition main :: "lib_env \<Rightarrow> path \<Rightarrow> string \<Rightarrow> world \<Rightarrow> (error + unit) \<times> world" where
  "main env registry_dir pkgs w =
     (let images = filter (\<lambda>l. l \<noteq> []) (split_on CHR 0x0A pkgs) in
      if fails env RepoCreate then (Inl GLibError, w)
      else
        (case Registry (w_fs w) registry_dir of
           (Inl e, f1) \<Rightarrow> (Inl e, w\<lparr>w_fs := f1\<rparr>)
         | (Inr reg, f1) \<Rightarrow>
             (case iter_commits (w_repo w) of
                Inl e \<Rightarrow> (Inl e, w\<lparr>w_fs := f1\<rparr>)
              | Inr existing \<Rightarrow>
                  (case import_loop env f1 reg existing images (w_repo w) (w_log w) of
                     (Inl e, r1, log1) \<Rightarrow> (Inl e, \<lparr>w_fs = f1, w_repo = r1, w_log = log1\<rparr>)
                   | (Inr u, r1, log1) \<Rightarrow>
                       (Inr (), \<lparr>w_fs = f1, w_repo = r1, w_log = log1 @ [SummaryUpdate]\<rparr>)))))"

section \<open>Notions of the specification\<close>

text \<open>The labels every config must carry, in the order the importer reads them.\<close>

definition required_keys :: "string list" where
  "required_keys =
     [''org.flatpak.ref'', ''org.flatpak.timestamp'', ''org.flatpak.subject'',
      ''org.flatpak.body'']"

text \<open>The commit metadata as the specification describes it: one entry for each label
  with the commit-metadata prefix, keyed by the rest of the label name and holding the
  decoded value, then the two synthesized entries.\<close>

definition metadata_labels :: "(string \<times> json) list \<Rightarrow> (string \<times> json) list" where
  "metadata_labels items = filter (\<lambda>kv. startswith (fst kv) metadata_prefix) items"

definition decoded :: "lib_env \<Rightarrow> json \<Rightarrow> string" where
  "decoded env v = (case decode_label env v of Inl e \<Rightarrow> [] | Inr b \<Rightarrow> b)"

definition expected_metadata :: "lib_env \<Rightarrow> (string \<times> json) list \<Rightarrow> string \<Rightarrow> string
    \<Rightarrow> (string \<times> variant) list" where
  "expected_metadata env items checksum diff_checksum =
     map (\<lambda>kv. (drop (length metadata_prefix) (fst kv), VData (decoded env (snd kv))))
       (metadata_labels items)
     @ [(''xa.alt-id'', VStr checksum), (''xa.diff-id'', VStr diff_checksum)]"

text \<open>The entries \<^verbatim>\<open>tar\<close> extracts for one layer descriptor of the manifest.\<close>

definition layer_entries :: "fs \<Rightarrow> registry \<Rightarrow> json \<Rightarrow> error + (string \<times> string) list" where
  "layer_entries f reg layer =
     and_then (getitem layer ''digest'') (\<lambda>d.
     and_then (str_attr d) (\<lambda>dg.
     and_then (path_for_blob reg dg) (\<lambda>p. tar_x f (arg_of p))))"

text \<open>The events a run adds to the log.\<close>

definition is_importing :: "string \<Rightarrow> event \<Rightarrow> bool" where
  "is_importing img ev = (ev = Importing img)"

section \<open>Example values\<close>

text \<open>A registry under \<^verbatim>\<open>/srv/registry\<close> with the \<^verbatim>\<open>sha256\<close> blob directory, a file system
  in which \<^verbatim>\<open>/srv\<close> exists and \<^verbatim>\<open>/srv/registry\<close> does not, one in which the registry is laid
  out, and an operating system.\<close>

definition reg0 :: registry where
  "reg0 = \<lparr>root = [''srv'', ''registry''],
           blobs = [(''sha256'', [''srv'', ''registry'', ''blobs'', ''sha256''])]\<rparr>"

definition fs_fresh :: fs where
  "fs_fresh = \<lparr>dirs = {[], [''srv'']}, files = Map.empty\<rparr>"

definition fs_laid_out :: fs where
  "fs_laid_out =
     \<lparr>dirs = {[], [''srv''], [''srv'', ''registry''], [''srv'', ''registry'', ''blobs''],
              [''srv'', ''registry'', ''blobs'', ''sha256'']},
      files = Map.empty\<rparr>"

definition env0 :: os_env where
  "env0 = \<lparr>sha256_of = (\<lambda>d. ''00''), size_of = (\<lambda>d. 0), temp_suffix = ''x1'', temp_fd = 3\<rparr>"

text \<open>An image \<^verbatim>\<open>sha256:aa11\<close> of two layers, both carrying \<^verbatim>\<open>files/bin/app\<close>, with one
  commit-metadata label; an image \<^verbatim>\<open>sha256:bb22\<close> whose config has no subject and a timestamp
  that is not a number.\<close>

definition blob_dir :: path where
  "blob_dir = [''srv'', ''registry'', ''blobs'', ''sha256'']"

definition manifest1 :: json where
  "manifest1 =
     JObj [(''config'', JObj [(''digest'', JStr ''sha256:cf01'')]),
           (''layers'', JArr [JObj [(''digest'', JStr ''sha256:1a'')],
                              JObj [(''digest'', JStr ''sha256:1b'')]])]"

definition labels1 :: "(string \<times> json) list" where
  "labels1 =
     [(''org.flatpak.ref'', JStr ''app/org.example.App/x86_64/stable''),
      (''org.flatpak.timestamp'', JStr ''1600000000''),
      (''org.flatpak.subject'', JStr ''Export''),
      (''org.flatpak.body'', JStr ''An example''),
      (''org.flatpak.commit-metadata.xa.foo'', JStr ''YmFy'')]"

definition config1 :: json where
  "config1 =
     JObj [(''config'', JObj [(''Labels'', JObj labels1)]),
           (''rootfs'', JObj [(''diff_ids'', JArr [JStr ''sha256:d1'', JStr ''sha256:d2''])])]"

definition manifest2 :: json where
  "manifest2 = JObj [(''config'', JObj [(''digest'', JStr ''sha256:cf02'')]), (''layers'', JArr [])]"

definition labels2 :: "(string \<times> json) list" where
  "labels2 =
     [(''org.flatpak.ref'', JStr ''app/org.example.App/x86_64/stable''),
      (''org.flatpak.timestamp'', JStr ''soon''),
      (''org.flatpak.body'', JStr ''An example'')]"

definition config2 :: json where
  "config2 =
     JObj [(''config'', JObj [(''Labels'', JObj labels2)]),
           (''rootfs'', JObj [(''diff_ids'', JArr [JStr ''sha256:d1''])])]"

definition layer_a :: "(string \<times> string) list" where
  "layer_a = [(''files/bin/app'', ''version 1''), (''files/share/doc'', ''manual'')]"

definition layer_b :: "(string \<times> string) list" where
  "layer_b = [(''files/bin/app'', ''version 2'')]"

definition fs1 :: fs where
  "fs1 =
     \<lparr>dirs = {[], [''srv''], [''srv'', ''registry''], [''srv'', ''registry'', ''blobs''],
              [''srv'', ''registry'', ''blobs'', ''sha256'']},
      files = map_of
        [(blob_dir @ [''aa11''], JsonFile manifest1),
         (blob_dir @ [''cf01''], JsonFile config1),
         (blob_dir @ [''bb22''], JsonFile manifest2),
         (blob_dir @ [''cf02''], JsonFile config2),
         (blob_dir @ [''1a''], TarFile layer_a),
         (blob_dir @ [''1b''], TarFile layer_b)]\<rparr>"

text \<open>A decoder that knows the encoding of \<^verbatim>\<open>bar\<close>, a checksum that is the alt-id behind a
  fixed prefix, and a library in which no call fails, or in which one call does.\<close>

definition b64_table :: "string \<Rightarrow> error + string" where
  "b64_table s = (case map_of [(''YmFy'', ''bar'')] s of None \<Rightarrow> Inl BinasciiError | Some b \<Rightarrow> Inr b)"

definition checksum_ex :: "commit \<Rightarrow> string" where
  "checksum_ex c = ''c0'' @ (case lookup_str (c_metadata c) ''xa.alt-id'' of None \<Rightarrow> [] | Some a \<Rightarrow> a)"

definition lib_ok :: lib_env where
  "lib_ok = \<lparr>b64decode = b64_table, checksum_of = checksum_ex, fails = (\<lambda>c. False)\<rparr>"

definition lib_failing :: "repo_call \<Rightarrow> lib_env" where
  "lib_failing call = \<lparr>b64decode = b64_table, checksum_of = checksum_ex, fails = (\<lambda>c. c = call)\<rparr>"

definition repo_empty :: repo where
  "repo_empty = \<lparr>refs = [], objects = [], txn = None\<rparr>"

definition commit1 :: commit where
  "commit1 =
     \<lparr>c_parent = None, c_subject = Some ''Export'', c_body = Some ''An example'',
      c_metadata = [(''xa.foo'', VData ''bar''), (''xa.alt-id'', VStr ''aa11''),
                    (''xa.diff-id'', VStr ''d2'')],
      c_root = [(''files/bin/app'', ''version 2''), (''files/share/doc'', ''manual'')],
      c_timestamp = 1600000000\<rparr>"

definition repo1 :: repo where
  "repo1 =
     \<lparr>refs = [(''app/org.example.App/x86_64/stable'', ''c0aa11'')],
      objects = [(''c0aa11'', commit1)], txn = None\<rparr>"

text \<open>What the importer has read of \<^verbatim>\<open>sha256:aa11\<close> when it opens the transaction, and the
  repository with the commit and the ref staged.\<close>

definition image1 :: image where
  "image1 =
     \<lparr>i_manifest = manifest1, i_ref = JStr ''app/org.example.App/x86_64/stable'',
      i_parent = JNull, i_timestamp = 1600000000, i_subject = JStr ''Export'',
      i_body = JStr ''An example'',
      i_metadata = [(''xa.foo'', VData ''bar''), (''xa.alt-id'', VStr ''aa11''),
                    (''xa.diff-id'', VStr ''d2'')]\<rparr>"

definition repo1_staged :: repo where
  "repo1_staged =
     repo1\<lparr>txn := Some ([(''app/org.example.App/x86_64/stable'', ''c0aa11'')],
                         [(''c0aa11'', commit1)])\<rparr>"

section \<open>Strings and paths\<close>

lemma split_on_none: "c \<notin> set s \<Longrightarrow> split_on c s = [s]"
  by (induction s) auto

lemma split1_colon:
  "CHR '':'' \<notin> set a \<Longrightarrow> split1 CHR '':'' (a @ CHR '':'' # w) = [a, w]"
  by (induction a) (auto simp: split1_def)

lemma split1_nocolon: "CHR '':'' \<notin> set s \<Longrightarrow> split1 CHR '':'' s = [s]"
  by (simp add: split1_def)

lemma joinpath_plain:
  "w \<noteq> [] \<Longrightarrow> CHR ''/'' \<notin> set w \<Longrightarrow> w \<noteq> ''.'' \<Longrightarrow> joinpath d w = d @ [w]"
  by (cases w) (auto simp: joinpath_def parts_of_def split_on_none)

section \<open>The registry\<close>

text \<open>
  C8, as the claim states it, fails: for a digest whose algorithm has no blob directory
  \<^verbatim>\<open>path_for_blob\<close> raises nothing. It returns \<^verbatim>\<open>None\<close>, here for an \<^verbatim>\<open>md5\<close> digest in a registry
  that only has the \<^verbatim>\<open>sha256\<close> directory.
\<close>

theorem path_for_blob_unconfigured_counterexample:
  "path_for_blob reg0 ''md5:abc'' = Inr None"
  by (simp add: path_for_blob_def reg0_def split1_def)

text \<open>
  C8, amended: a digest without a colon raises \<open>ValueError\<close>; a digest
  \<^verbatim>\<open>algorithm:want\<close> whose algorithm has no blob directory yields \<^verbatim>\<open>None\<close> and no exception; a
  digest whose algorithm has a blob directory and whose hash is a non-empty string of
  hexadecimal digits yields that directory extended by the hash.
\<close>

theorem path_for_blob_result:
  "(CHR '':'' \<notin> set dg \<longrightarrow> path_for_blob reg dg = Inl ValueError) \<and>
   (CHR '':'' \<notin> set algorithm \<and> map_of (blobs reg) algorithm = None \<longrightarrow>
      path_for_blob reg (algorithm @ '':'' @ want) = Inr None) \<and>
   (CHR '':'' \<notin> set algorithm \<and> map_of (blobs reg) algorithm = Some dir \<and>
    want \<noteq> [] \<and> set want \<subseteq> set ''0123456789abcdef'' \<longrightarrow>
      path_for_blob reg (algorithm @ '':'' @ want) = Inr (Some (dir @ [want])))"
proof (intro conjI impI)
  assume "CHR '':'' \<notin> set dg"
  then show "path_for_blob reg dg = Inl ValueError"
    by (simp add: path_for_blob_def split1_nocolon)
next
  assume "CHR '':'' \<notin> set algorithm \<and> map_of (blobs reg) algorithm = None"
  then show "path_for_blob reg (algorithm @ '':'' @ want) = Inr None"
    by (simp add: path_for_blob_def split1_colon)
next
  assume a: "CHR '':'' \<notin> set algorithm \<and> map_of (blobs reg) algorithm = Some dir \<and>
    want \<noteq> [] \<and> set want \<subseteq> set ''0123456789abcdef''"
  then have "CHR ''/'' \<notin> set want" "want \<noteq> ''.''" by auto
  with a have "joinpath dir want = dir @ [want]" by (simp add: joinpath_plain)
  with a show "path_for_blob reg (algorithm @ '':'' @ want) = Inr (Some (dir @ [want]))"
    by (simp add: path_for_blob_def split1_colon)
qed

theorem path_for_blob_result_witness:
  "path_for_blob reg0 ''sha256'' = Inl ValueError \<and>
   path_for_blob reg0 ''sha512:abc'' = Inr None \<and>
   path_for_blob reg0 ''sha256:0a1f'' =
     Inr (Some [''srv'', ''registry'', ''blobs'', ''sha256'', ''0a1f''])"
  using path_for_blob_result [where dg = "''sha256''" and reg = reg0
      and algorithm = "''sha512''" and want = "''abc''"]
    path_for_blob_result [where dg = "''sha256''" and reg = reg0 and algorithm = "''sha256''"
      and dir = "[''srv'', ''registry'', ''blobs'', ''sha256'']" and want = "''0a1f''"]
  by (simp add: reg0_def)

text \<open>
  C6: the constructor calls \<^verbatim>\<open>init\<close> when the root does not exist, and \<^verbatim>\<open>init\<close> opens
  \<^verbatim>\<open>oci-layout\<close> under the root for writing without creating the root first (the
  \<^verbatim>\<open>mkdir\<close> with \<^verbatim>\<open>parents=True\<close> comes later, for the blob directories). With \<^verbatim>\<open>/srv\<close> present
  and \<^verbatim>\<open>/srv/registry\<close> absent the constructor raises \<open>FileNotFoundError\<close> and leaves the file
  system as it was: no root, no marker.
\<close>

theorem Registry_missing_root_fails:
  "Registry fs_fresh [''srv'', ''registry''] = (Inl FileNotFoundError, fs_fresh)"
  by (simp add: Registry_def exists_def fs_fresh_def init_def joinpath_def parts_of_def
      write_file_def)

text \<open>
  C7: \<^verbatim>\<open>blobs_add_json\<close> never returns a descriptor. \<^verbatim>\<open>tempfile.mkstemp\<close> returns the pair
  of a descriptor and a name, the method passes the pair to \<^verbatim>\<open>open\<close>, and \<^verbatim>\<open>open\<close>
  raises \<open>TypeError\<close>; \<^verbatim>\<open>blobs_add_file\<close> is not reached.
\<close>

theorem blobs_add_json_never_returns:
  "fst (blobs_add_json env f reg js mtype algorithm) \<noteq> Inr info"
  by (auto simp: blobs_add_json_def mkstemp_def Let_def split: prod.splits sum.splits if_splits)

theorem blobs_add_json_never_returns_witness:
  "fst (blobs_add_json env0 fs_laid_out reg0 (JObj [(''a'', JNum 1)]) ''config'' ''sha256'')
     \<noteq> Inr \<lparr>b_digest = ''sha256:00'', b_size = 0,
              b_mediaType = ''application/vnd.oci.image.config.v1+json''\<rparr>"
  using blobs_add_json_never_returns [of env0 fs_laid_out reg0 "JObj [(''a'', JNum 1)]"
      "''config''" "''sha256''"]
  by simp

text \<open>At the failing input of C7 the exception is \<open>TypeError\<close>, and the temporary file stays
  behind under the root.\<close>

lemma blobs_add_json_example:
  "blobs_add_json env0 fs_laid_out reg0 (JObj [(''a'', JNum 1)]) ''config'' ''sha256'' =
     (Inl TypeError,
      fs_laid_out\<lparr>files := (files fs_laid_out)([''srv'', ''registry'', ''.temp-x1'']
         \<mapsto> OtherFile [])\<rparr>)"
  by (simp add: blobs_add_json_def mkstemp_def Let_def fs_laid_out_def reg0_def env0_def
      exists_def)

section \<open>Evaluating the model\<close>

lemmas ex_defs = fs1_def blob_dir_def manifest1_def config1_def labels1_def manifest2_def
  config2_def labels2_def layer_a_def layer_b_def lib_ok_def lib_failing_def b64_table_def
  checksum_ex_def repo_empty_def reg0_def commit1_def repo1_def image1_def repo1_staged_def

lemmas run_defs = and_then_def blobs_get_json_def path_for_blob_def split1_def arg_of_def
  joinpath_def parts_of_def load_labels_def required_labels_def build_metadata_def
  read_image_def str_attr_def hash_part_def metadata_prefix_def startswith_def int_of_str_def
  strip_def is_space_def digits_val_def digit_val_def is_digit_def

lemmas repo_defs = import_image_def import_body_def build_tree_def prepare_transaction_def
  abort_transaction_def write_mtree_def write_commit_with_time_def transaction_set_ref_def
  commit_transaction_def stage_object_def merge_into_def import_layer_def
  write_directory_to_mtree_def overlay_def lookup_str_def

lemma and_then_Inr [simp]: "(and_then x g = Inr y) = (\<exists>v. x = Inr v \<and> g v = Inr y)"
  by (cases x) (simp_all add: and_then_def)

lemma and_then_Inl: "x = Inl e \<Longrightarrow> and_then x g = Inl e"
  by (simp add: and_then_def)

lemma and_then_step: "x = Inr v \<Longrightarrow> and_then x g = g v"
  by (simp add: and_then_def)

section \<open>The transaction\<close>

text \<open>Inside an open transaction a commit and a ref are staged: the refs and objects a
  reader sees stay as they are.\<close>

lemma write_commit_staged:
  assumes "write_commit_with_time env r p s b md rt ts = Inr (rv, r1)" and "txn r = Some t"
  shows "refs r1 = refs r \<and> objects r1 = objects r \<and> txn r1 \<noteq> None"
  using assms
  by (auto simp: write_commit_with_time_def stage_object_def Let_def split: if_splits prod.splits)

lemma set_ref_staged:
  assumes "transaction_set_ref r ref rv = Inr r1" and "txn r = Some t"
  shows "refs r1 = refs r \<and> objects r1 = objects r \<and> txn r1 \<noteq> None"
  using assms
  by (auto simp: transaction_set_ref_def split: sum.splits prod.splits)

lemma import_body_failure:
  assumes "import_body env f reg im r log = (Inl e, r1, log1)" and "txn r = Some t"
  shows "refs r1 = refs r \<and> objects r1 = objects r"
proof (cases "build_tree env f reg im")
  case (Inl a)
  with assms show ?thesis by (simp add: import_body_def)
next
  case (Inr rt)
  show ?thesis
  proof (cases "write_commit_with_time env r (i_parent im) (i_subject im) (i_body im)
                  (i_metadata im) rt (i_timestamp im)")
    case (Inl a)
    with Inr assms show ?thesis by (simp add: import_body_def)
  next
    case wc: (Inr p)
    obtain rv r2 where p: "p = (rv, r2)" by (cases p)
    from wc p assms(2) have st: "refs r2 = refs r \<and> objects r2 = objects r \<and> txn r2 \<noteq> None"
      using write_commit_staged by blast
    show ?thesis
    proof (cases "transaction_set_ref r2 (i_ref im) rv")
      case (Inl a)
      with Inr wc p assms st show ?thesis by (simp add: import_body_def)
    next
      case sr: (Inr r3)
      from st obtain t2 where "txn r2 = Some t2" by auto
      with sr have st3: "refs r3 = refs r2 \<and> objects r3 = objects r2 \<and> txn r3 \<noteq> None"
        using set_ref_staged by blast
      show ?thesis
      proof (cases "commit_transaction env r3")
        case (Inl a)
        with Inr wc p sr assms st st3 show ?thesis by (simp add: import_body_def)
      next
        case (Inr a)
        with \<open>build_tree env f reg im = Inr rt\<close> wc p sr assms show ?thesis
          by (simp add: import_body_def)
      qed
    qed
  qed
qed

lemma abort_restores:
  assumes "refs r1 = refs r" and "objects r1 = objects r"
  shows "refs (abort_transaction r1) = refs r \<and> objects (abort_transaction r1) = objects r \<and>
     txn (abort_transaction r1) = None \<and> (txn r = None \<longrightarrow> abort_transaction r1 = r)"
  using assms by (simp add: abort_transaction_def)

lemma failed_body_is_aborted:
  assumes "read_image env f reg dg = Inr im"
    and "prepare_transaction env r = Inr r0"
    and "import_body env f reg im r0 log = (Inl e, r1, log1)"
  shows "import_image env f reg r log dg = (Inl e, abort_transaction r1, log1) \<and>
     refs (abort_transaction r1) = refs r \<and> objects (abort_transaction r1) = objects r \<and>
     txn (abort_transaction r1) = None \<and> (txn r = None \<longrightarrow> abort_transaction r1 = r)"
proof -
  from assms(2) have r0: "refs r0 = refs r \<and> objects r0 = objects r \<and> txn r0 = Some ([], [])"
    by (auto simp: prepare_transaction_def split: if_splits)
  with assms(3) have "refs r1 = refs r \<and> objects r1 = objects r"
    using import_body_failure by metis
  then have "refs (abort_transaction r1) = refs r \<and> objects (abort_transaction r1) = objects r \<and>
     txn (abort_transaction r1) = None \<and> (txn r = None \<longrightarrow> abort_transaction r1 = r)"
    using abort_restores by blast
  moreover from assms have "import_image env f reg r log dg = (Inl e, abort_transaction r1, log1)"
    by (simp add: import_image_def)
  ultimately show ?thesis by blast
qed

text \<open>An import that raises, at any line, leaves the refs and the objects as they were,
  and the whole repository when no transaction was open before.\<close>

lemma import_image_failure_unchanged:
  assumes "import_image env f reg r log dg = (Inl e, r', log')"
  shows "refs r' = refs r \<and> objects r' = objects r \<and> (txn r = None \<longrightarrow> r' = r)"
proof (cases "read_image env f reg dg")
  case (Inl a)
  with assms show ?thesis by (simp add: import_image_def)
next
  case im: (Inr im)
  show ?thesis
  proof (cases "prepare_transaction env r")
    case (Inl a)
    with im assms show ?thesis by (simp add: import_image_def)
  next
    case (Inr r0)
    obtain res r1 log1 where b: "import_body env f reg im r0 log = (res, r1, log1)"
      by (cases "import_body env f reg im r0 log") auto
    show ?thesis
    proof (cases res)
      case (Inl e1)
      with b have b': "import_body env f reg im r0 log = (Inl e1, r1, log1)" by simp
      from failed_body_is_aborted [OF im Inr b'] assms show ?thesis by simp
    next
      case (Inr u)
      with b im \<open>prepare_transaction env r = Inr r0\<close> assms show ?thesis
        by (simp add: import_image_def)
    qed
  qed
qed

text \<open>
  C1: once the image has been read and the transaction is open, an exception raised by the
  body of the \<^verbatim>\<open>try\<close> statement (extracting a layer, writing the tree, writing the commit,
  setting the ref, committing the transaction) reaches the caller after
  \<^verbatim>\<open>abort_transaction\<close>: the import returns that exception, the refs and the commit objects
  of the repository are those from before the import, no transaction is left open, and a
  repository that had no open transaction before is the same value as before.
\<close>

theorem import_image_failure_aborts:
  assumes "read_image env f reg dg = Inr im"
    and "prepare_transaction env r = Inr r0"
    and "import_body env f reg im r0 log = (Inl e, r1, log1)"
  shows "import_image env f reg r log dg = (Inl e, abort_transaction r1, log1) \<and>
     refs (abort_transaction r1) = refs r \<and> objects (abort_transaction r1) = objects r \<and>
     txn (abort_transaction r1) = None \<and> (txn r = None \<longrightarrow> abort_transaction r1 = r)"
  using assms by (rule failed_body_is_aborted)

theorem import_image_failure_aborts_witness:
  "import_image (lib_failing CommitTransaction) fs1 reg0 repo1 [] ''sha256:aa11'' =
     (Inl GLibError, repo1, [Committing ''c0aa11'' (JStr ''app/org.example.App/x86_64/stable'')])
   \<and> refs (abort_transaction repo1_staged) = refs repo1
   \<and> objects (abort_transaction repo1_staged) = objects repo1
   \<and> txn (abort_transaction repo1_staged) = None
   \<and> abort_transaction repo1_staged = repo1"
proof -
  have a: "read_image (lib_failing CommitTransaction) fs1 reg0 ''sha256:aa11'' = Inr image1"
    by (simp add: ex_defs run_defs)
  have b: "prepare_transaction (lib_failing CommitTransaction) repo1 =
      Inr (repo1\<lparr>txn := Some ([], [])\<rparr>)"
    by (simp add: prepare_transaction_def lib_failing_def)
  have c: "import_body (lib_failing CommitTransaction) fs1 reg0 image1
      (repo1\<lparr>txn := Some ([], [])\<rparr>) [] =
      (Inl GLibError, repo1_staged,
       [Committing ''c0aa11'' (JStr ''app/org.example.App/x86_64/stable'')])"
    by (simp add: ex_defs run_defs repo_defs)
  have d: "abort_transaction repo1_staged = repo1"
    by (simp add: abort_transaction_def repo1_staged_def repo1_def)
  have e: "txn repo1 = None" by (simp add: repo1_def)
  from import_image_failure_aborts [OF a b c] d e show ?thesis by simp
qed

end
